theory Spec2Isabelle
  imports Complex_Main "HOL-Library.Word"
begin

section \<open>NanoPressure: a BLE pressure logger client\<close>

text \<open>
  A shallow embedding of \<^verbatim>\<open>NanoPressure.py\<close>. The program talks to a Bluetooth device,
  the terminal, the clock and the file system. Everything it receives from outside is a
  field of the record \<open>env\<close>; everything it does is appended, oldest first, to the
  \<open>trace\<close> of the record \<open>state\<close>. Every function of the source that has an effect
  takes the state and returns an outcome (an error or a value) with the new state.
\<close>

subsection \<open>Values\<close>

type_synonym byte = "8 word"
type_synonym payload = "byte list"

text \<open>
  A Python float. Arithmetic on finite values is exact here: the rounding of binary64
  is not part of the model.
\<close>

datatype pyfloat = Finite real | PosInf | NegInf | NaN

datatype byteorder = Little | Big

datatype signal = SIGINT | SIGTERM

datatype error =
    SystemExit int
  | StructError
  | TypeError
  | IndexError
  | NameError
  | OverflowError
  | BleakError
  | OSError

record ble_device =
  address :: string
  name :: string

record advertisement =
  rssi :: int

text \<open>\<^verbatim>\<open>str(device)\<close> of a bleak device: address, colon, name.\<close>

definition str_device :: "ble_device \<Rightarrow> string" where
  "str_device d = address d @ '': '' @ name d"

text \<open>
  A history entry as \<^verbatim>\<open>struct.unpack('<fI', data)\<close> returns it: the pressure and the
  device's relative time in milliseconds.
\<close>

type_synonym sample = "pyfloat \<times> nat"

text \<open>
  A numpy array of floats, as far as the program builds one: one-dimensional, or
  two-dimensional with two columns.
\<close>

datatype ndarray = Array1 "pyfloat list" | Array2 "(pyfloat \<times> pyfloat) list"

datatype level = DEBUG | INFO | WARNING | ERROR

datatype val =
    VInt int
  | VReal real
  | VFloat pyfloat
  | VStr string
  | VStrs "string list"
  | VDev ble_device

text \<open>
  What the program does. A log record and a printed line keep the text of the source
  with \<open>{}\<close> for each formatted value, and the values.
\<close>

datatype event =
    Log level string "val list"
  | Print string "val list" string
  | Discover int
  | FindByAddress string int
  | Menu "string list" string
  | Connect ble_device int
  | Disconnect
  | ReadChar nat
  | WriteChar nat payload bool
  | StartNotify nat
  | StopNotify nat
  | AddSignalHandler signal
  | Wait
  | Received signal
  | SaveTxt string string ndarray string

record args =
  mode :: string
  addr :: "string option"
  arg_rssi :: int
  timeout :: int
  interval :: "int option"
  newline :: bool
  filename :: string
  overwrite :: bool

record env =
  sys_byteorder :: byteorder
  discovered :: "(string \<times> ble_device \<times> advertisement) list"
  found_by_address :: "string \<Rightarrow> ble_device option"
  menu_choice :: "string list \<Rightarrow> nat option"
  connect_ok :: bool
  services :: "(string \<times> (string \<times> string list) list) list"
  gatt_resp :: "nat \<Rightarrow> nat \<Rightarrow> payload option"
  write_ok :: bool
  notify_ok :: bool
  notifications :: "payload list"
  arriving_signal :: "signal option"
  wall_clock :: "nat \<Rightarrow> real"
  open_ok :: bool

record state =
  trace :: "event list"
  reads :: "nat \<Rightarrow> nat"
  ticks :: nat
  eol :: "string option"

type_synonym 'a io = "state \<Rightarrow> (error + 'a) \<times> state"

definition emit :: "event \<Rightarrow> state \<Rightarrow> state" where
  "emit ev s = s\<lparr>trace := trace s @ [ev]\<rparr>"

definition initial :: state where
  "initial = \<lparr>trace = [], reads = (\<lambda>h. 0), ticks = 0, eol = None\<rparr>"

subsection \<open>Device locator\<close>

text \<open>
  \<^verbatim>\<open>BleakScanner.discover(timeout, return_adv=True)\<close> returns a dictionary from address
  to (device, advertisement); it is an association list here, in the dictionary's order.
\<close>

definition keep_rssi :: "int \<Rightarrow> (string \<times> ble_device \<times> advertisement) list
    \<Rightarrow> (string \<times> ble_device \<times> advertisement) list" where
  "keep_rssi minimum_rssi devices =
     filter (\<lambda>(a, device, adv). rssi adv > minimum_rssi) devices"

definition report_found :: "(string \<times> ble_device \<times> advertisement) list \<Rightarrow> state \<Rightarrow> state" where
  "report_found devices s =
     fold (\<lambda>(a, device, adv). emit (Log INFO ''Found device {} (RSSI = {} dB)''
                                        [VDev device, VInt (rssi adv)])) devices s"

definition discoverDevice :: "env \<Rightarrow> int \<Rightarrow> int \<Rightarrow> ble_device io" where
  "discoverDevice e tmo minimum_rssi s =
     (let s1 = emit (Log INFO ''Scanning for bluetooth devices...'' []) s;
          s2 = emit (Discover tmo) s1;
          devices = keep_rssi minimum_rssi (discovered e);
          s3 = report_found devices s2
      in if devices = [] then
           (Inl (SystemExit 1),
            emit (Log ERROR
              ''Could not find any devices, check minimum RSSI level (option: --rssi)'' []) s3)
         else if length devices = 1 then
           (Inr (fst (snd (hd devices))), s3)
         else
           (let devlist = map (\<lambda>(a, device, adv). device) devices;
                entries = map str_device devlist;
                s4 = emit (Menu entries ''Please select your device:'') s3
            in case menu_choice e entries of
                 None \<Rightarrow> (Inl TypeError, s4)
               | Some i \<Rightarrow>
                   if i < length devlist then (Inr (devlist ! i), s4)
                   else (Inl IndexError, s4)))"

definition getDevice :: "env \<Rightarrow> string \<Rightarrow> int \<Rightarrow> ble_device io" where
  "getDevice e a tmo s =
     (let s1 = emit (FindByAddress a tmo) s
      in case found_by_address e a of
           None \<Rightarrow>
             (Inl (SystemExit 1),
              emit (Log ERROR ''Could not find device with address {}'' [VStr a]) s1)
         | Some device \<Rightarrow> (Inr device, s1))"

subsection \<open>Binary formats\<close>

fun le_nat :: "byte list \<Rightarrow> nat" where
  "le_nat [] = 0"
| "le_nat (b # bs) = unat b + 256 * le_nat bs"

definition be_nat :: "byte list \<Rightarrow> nat" where
  "be_nat bs = le_nat (rev bs)"

definition le_bytes4 :: "nat \<Rightarrow> payload" where
  "le_bytes4 n = [of_nat n, of_nat (n div 256), of_nat (n div 65536), of_nat (n div 16777216)]"

text \<open>\<^verbatim>\<open>struct.unpack('<I', data)[0]\<close>: exactly four bytes, least significant first.\<close>

definition unpack_I :: "payload \<Rightarrow> error + nat" where
  "unpack_I data = (if length data = 4 then Inr (le_nat data) else Inl StructError)"

text \<open>\<^verbatim>\<open>struct.pack('<I', n)\<close>: the number must fit 32 bits unsigned.\<close>

definition pack_I :: "int \<Rightarrow> error + payload" where
  "pack_I n = (if 0 \<le> n \<and> n < 2 ^ 32 then Inr (le_bytes4 (nat n)) else Inl StructError)"

text \<open>
  The value of an IEEE-754 binary32 bit pattern, given as a number below \<open>2 ^ 32\<close>:
  one sign bit, eight exponent bits, 23 fraction bits. Both zeros are \<open>Finite 0\<close>.
\<close>

definition binary32 :: "nat \<Rightarrow> pyfloat" where
  "binary32 n =
     (let sign = n div 2 ^ 31; ex = (n div 2 ^ 23) mod 256; frac = n mod 2 ^ 23
      in if ex = 255 then (if frac \<noteq> 0 then NaN else if sign = 0 then PosInf else NegInf)
         else Finite ((if sign = 0 then 1 else - 1) *
                (if ex = 0 then real frac / 2 ^ 149
                 else real (2 ^ 23 + frac) * 2 ^ ex / 2 ^ 150)))"

text \<open>
  \<^verbatim>\<open>struct.unpack('f', data)[0]\<close>: a format without a prefix character uses the byte
  order of the machine the program runs on.
\<close>

definition unpack_f :: "byteorder \<Rightarrow> payload \<Rightarrow> error + pyfloat" where
  "unpack_f order data =
     (if length data = 4
      then Inr (binary32 (case order of Little \<Rightarrow> le_nat data | Big \<Rightarrow> be_nat data))
      else Inl StructError)"

text \<open>\<^verbatim>\<open>struct.unpack('<fI', data)\<close>: eight bytes, a float then an unsigned integer.\<close>

definition unpack_fI :: "payload \<Rightarrow> error + sample" where
  "unpack_fI data =
     (if length data = 8
      then Inr (binary32 (le_nat (take 4 data)), le_nat (drop 4 data))
      else Inl StructError)"

subsection \<open>The session's operations\<close>

text \<open>The characteristic handles of the source's \<^verbatim>\<open>handles\<close> dictionary.\<close>

definition handle_pressureValue :: nat where "handle_pressureValue = 11"
definition handle_interval :: nat where "handle_interval = 16"
definition handle_pressureHistory :: nat where "handle_pressureHistory = 20"
definition handle_deviceTime :: nat where "handle_deviceTime = 23"
definition handle_pressureCounts :: nat where "handle_pressureCounts = 26"

text \<open>
  The \<open>k\<close>-th read of a handle is answered by \<open>gatt_resp e handle k\<close>; \<open>None\<close>
  is a read that raises.
\<close>

definition read_gatt_char :: "env \<Rightarrow> nat \<Rightarrow> payload io" where
  "read_gatt_char e handle s =
     (let k = reads s handle;
          s1 = emit (ReadChar handle) (s\<lparr>reads := (reads s)(handle := Suc k)\<rparr>)
      in case gatt_resp e handle k of
           None \<Rightarrow> (Inl BleakError, s1)
         | Some data \<Rightarrow> (Inr data, s1))"

definition write_gatt_char :: "env \<Rightarrow> nat \<Rightarrow> payload \<Rightarrow> bool \<Rightarrow> unit io" where
  "write_gatt_char e handle data response s =
     (let s1 = emit (WriteChar handle data response) s
      in if write_ok e then (Inr (), s1) else (Inl BleakError, s1))"

definition start_notify :: "env \<Rightarrow> nat \<Rightarrow> unit io" where
  "start_notify e handle s =
     (let s1 = emit (StartNotify handle) s
      in if notify_ok e then (Inr (), s1) else (Inl BleakError, s1))"

definition stop_notify :: "env \<Rightarrow> nat \<Rightarrow> unit io" where
  "stop_notify e handle s =
     (let s1 = emit (StopNotify handle) s
      in if notify_ok e then (Inr (), s1) else (Inl BleakError, s1))"

text \<open>\<^verbatim>\<open>time.time()\<close> and \<^verbatim>\<open>datetime.now()\<close>: the next reading of the wall clock.\<close>

definition time_time :: "env \<Rightarrow> state \<Rightarrow> real \<times> state" where
  "time_time e s = (wall_clock e (ticks s), s\<lparr>ticks := Suc (ticks s)\<rparr>)"

definition io_bind :: "'a io \<Rightarrow> ('a \<Rightarrow> 'b io) \<Rightarrow> 'b io" where
  "io_bind m f s = (case m s of (Inl err, s1) \<Rightarrow> (Inl err, s1) | (Inr x, s1) \<Rightarrow> f x s1)"

definition io_lift :: "error + 'a \<Rightarrow> 'a io" where
  "io_lift r s = (r, s)"

definition io_emit :: "event \<Rightarrow> unit io" where
  "io_emit ev s = (Inr (), emit ev s)"

subsection \<open>Notification handler and count reader\<close>

definition scanPressureCallback :: "env \<Rightarrow> payload \<Rightarrow> unit io" where
  "scanPressureCallback e data s =
     (case unpack_f (sys_byteorder e) data of
        Inl err \<Rightarrow> (Inl err, s)
      | Inr pressure \<Rightarrow>
          (let (now, s1) = time_time e s
           in case eol s1 of
                None \<Rightarrow> (Inl NameError, s1)
              | Some terminator \<Rightarrow>
                  (Inr (), emit (Print ''{} : {:10.2f} Pa'' [VReal now, VFloat pressure]
                                   terminator) s1)))"

definition readCounts :: "env \<Rightarrow> nat \<Rightarrow> nat io" where
  "readCounts e handle =
     io_bind (read_gatt_char e handle) (\<lambda>data.
     io_bind (io_lift (unpack_I data)) (\<lambda>counts.
     io_bind (io_emit (Log INFO ''Found {} pressure values on device'' [VInt (int counts)]))
       (\<lambda>_. io_lift (Inr counts))))"

subsection \<open>Interval configurator\<close>

text \<open>
  \<^verbatim>\<open>timedelta(seconds=x)\<close> raises when the duration is beyond its range of
  999999999 days on either side.
\<close>

definition timedelta :: "real \<Rightarrow> error + real" where
  "timedelta seconds =
     (if - 86399999913600 \<le> seconds \<and> seconds < 86400000000000 then Inr seconds
      else Inl OverflowError)"

definition remaining_seconds :: "nat \<Rightarrow> int \<Rightarrow> real" where
  "remaining_seconds curr_counts requested =
     (let counts_left = 16384 - int curr_counts;
          intv = (if requested \<noteq> 0 then real_of_int requested else 0.1)
      in real_of_int counts_left * intv)"

definition set_interval :: "env \<Rightarrow> int \<Rightarrow> unit io" where
  "set_interval e requested =
     io_bind (read_gatt_char e handle_interval) (\<lambda>data.
     io_bind (io_lift (unpack_I data)) (\<lambda>current.
     io_bind (io_emit (Log INFO ''Current readout interval is {} second(s)''
                         [VInt (int current)])) (\<lambda>_.
     io_bind (io_emit (Log INFO ''Setting readout interval to {} second(s)''
                         [VInt requested])) (\<lambda>_.
     io_bind (io_lift (pack_I requested)) (\<lambda>packed.
     io_bind (write_gatt_char e handle_interval packed True) (\<lambda>_.
     io_bind (read_gatt_char e handle_pressureCounts) (\<lambda>raw.
     io_bind (io_lift (unpack_I raw)) (\<lambda>curr_counts.
     io_bind (io_lift (timedelta (remaining_seconds curr_counts requested))) (\<lambda>duration.
     io_emit (Log WARNING ''Remaining recording buffer will last for {}''
                [VReal duration]))))))))))"

subsection \<open>Scan mode\<close>

text \<open>
  The notifications that arrive while the program waits are handed to the handler one by
  one; a handler that raises prints nothing and the wait goes on.
\<close>

definition deliver :: "env \<Rightarrow> payload list \<Rightarrow> state \<Rightarrow> state" where
  "deliver e datas s = fold (\<lambda>data s1. snd (scanPressureCallback e data s1)) datas s"

text \<open>
  \<^verbatim>\<open>await stopEvent.wait()\<close> returns when a signal sets the event. With no signal it
  never returns: the result is \<open>None\<close>.
\<close>

definition scan_mode :: "env \<Rightarrow> args \<Rightarrow> state \<Rightarrow> ((error + unit) \<times> state) option" where
  "scan_mode e a s =
     (let s1 = emit (Log INFO ''Starting scanning mode...'' []) s;
          s2 = s1\<lparr>eol := Some (if newline a then [CHR 0x0A] else [CHR 0x0D])\<rparr>
      in case start_notify e handle_pressureValue s2 of
           (Inl err, s3) \<Rightarrow> Some (Inl err, s3)
         | (Inr _, s3) \<Rightarrow>
             (let s4 = emit (AddSignalHandler SIGINT) s3;
                  s5 = emit (AddSignalHandler SIGTERM) s4;
                  s6 = deliver e (notifications e) (emit Wait s5)
              in case arriving_signal e of
                   None \<Rightarrow> None
                 | Some sg \<Rightarrow> Some (stop_notify e handle_pressureValue (emit (Received sg) s6))))"

subsection \<open>Download mode\<close>

text \<open>
  \<^verbatim>\<open>for i in range(counts)\<close>: the third argument is the number of iterations left.
\<close>

fun read_batch :: "env \<Rightarrow> nat \<Rightarrow> nat \<Rightarrow> sample list \<Rightarrow> state
    \<Rightarrow> (error + sample list) \<times> state" where
  "read_batch e counts 0 dataList s = (Inr dataList, s)"
| "read_batch e counts (Suc n) dataList s =
     (case read_gatt_char e handle_pressureHistory s of
        (Inl err, s1) \<Rightarrow> (Inl err, s1)
      | (Inr data, s1) \<Rightarrow>
          (case unpack_fI data of
             Inl err \<Rightarrow> (Inl err, s1)
           | Inr entry \<Rightarrow>
               (let dataList1 = dataList @ [entry];
                    s2 = emit (Print ''Reading {:10d} of {}''
                                 [VInt (int (length dataList1)), VInt (int counts)]
                                 [CHR 0x0D]) s1
                in read_batch e counts n dataList1 s2)))"

text \<open>
  \<^verbatim>\<open>while counts > 0\<close>: the loop goes on as long as the device reports entries, so
  it need not end.
\<close>

partial_function (option) drain :: "env \<Rightarrow> nat \<Rightarrow> sample list \<Rightarrow> state
    \<Rightarrow> ((error + sample list) \<times> state) option" where
  "drain e counts dataList s =
     (if counts > 0 then
        (case read_batch e counts counts dataList s of
           (Inl err, s1) \<Rightarrow> Some (Inl err, s1)
         | (Inr dataList1, s1) \<Rightarrow>
             (case readCounts e handle_pressureCounts s1 of
                (Inl err, s2) \<Rightarrow> Some (Inl err, s2)
              | (Inr counts1, s2) \<Rightarrow> drain e counts1 dataList1 s2))
      else Some (Inr dataList, s))"

text \<open>
  \<^verbatim>\<open>np.array(dataList)\<close>: a list of pairs becomes an array with two columns, the
  empty list an empty array of one dimension.
\<close>

definition np_array :: "sample list \<Rightarrow> ndarray" where
  "np_array dataList =
     (if dataList = [] then Array1 []
      else Array2 (map (\<lambda>(pressure, ms). (pressure, Finite (real ms))) dataList))"

definition float_div :: "pyfloat \<Rightarrow> real \<Rightarrow> pyfloat" where
  "float_div x d = (case x of Finite r \<Rightarrow> Finite (r / d) | _ \<Rightarrow> x)"

definition float_add :: "pyfloat \<Rightarrow> real \<Rightarrow> pyfloat" where
  "float_add x d = (case x of Finite r \<Rightarrow> Finite (r + d) | _ \<Rightarrow> x)"

text \<open>
  \<^verbatim>\<open>data[:,1] = f(data[:,1])\<close>: an index with two positions needs two dimensions.
\<close>

definition update_column1 :: "(pyfloat \<Rightarrow> pyfloat) \<Rightarrow> ndarray \<Rightarrow> error + ndarray" where
  "update_column1 f data =
     (case data of
        Array1 xs \<Rightarrow> Inl IndexError
      | Array2 rows \<Rightarrow> Inr (Array2 (map (\<lambda>(p, t). (p, f t)) rows)))"

text \<open>
  The second half of download mode: the clock offset, the rewrite of the time column
  and the output file.
\<close>

definition post_process :: "env \<Rightarrow> args \<Rightarrow> sample list \<Rightarrow> unit io" where
  "post_process e a dataList s =
     (let (localTime, s1) = time_time e s
      in (io_bind (read_gatt_char e handle_deviceTime) (\<lambda>raw.
          io_bind (io_lift (unpack_I raw)) (\<lambda>ms.
          (let deviceTime = real ms / 1000;
               deltaTime = localTime - deviceTime
           in io_bind (io_emit (Log INFO ''Established time Difference of {} seconds.''
                                  [VReal deltaTime])) (\<lambda>_.
              io_bind (io_emit (Log INFO ''Device was started at {}.'' [VReal deltaTime])) (\<lambda>_.
              io_bind (io_lift (update_column1 (\<lambda>t. float_div t 1000) (np_array dataList)))
                (\<lambda>data1.
              io_bind (io_lift (update_column1 (\<lambda>t. float_add t deltaTime) data1)) (\<lambda>data2.
              io_bind (io_lift (if open_ok e then Inr () else Inl OSError)) (\<lambda>_.
              io_emit (SaveTxt (filename a) (if overwrite a then ''w'' else ''a'') data2
                         ''%.2f'')))))))))) s1)"

text \<open>
  The first half of download mode, from \<^verbatim>\<open>dataList = []\<close> to the log line with the
  number of values read.
\<close>

definition drain_engine :: "env \<Rightarrow> state \<Rightarrow> ((error + sample list) \<times> state) option" where
  "drain_engine e s =
     (case readCounts e handle_pressureCounts s of
        (Inl err, s1) \<Rightarrow> Some (Inl err, s1)
      | (Inr counts, s1) \<Rightarrow>
          (let (start, s2) = time_time e s1
           in case drain e counts [] s2 of
                None \<Rightarrow> None
              | Some (Inl err, s3) \<Rightarrow> Some (Inl err, s3)
              | Some (Inr dataList, s3) \<Rightarrow>
                  (let (stop, s4) = time_time e s3;
                       s5 = emit (Log INFO ''Read {} values in {} seconds''
                                    [VInt (int (length dataList)), VReal (stop - start)]) s4
                   in Some (Inr dataList, s5))))"

definition download_mode :: "env \<Rightarrow> args \<Rightarrow> state \<Rightarrow> ((error + unit) \<times> state) option" where
  "download_mode e a s =
     (let s1 = emit (Log INFO ''Starting download mode...'' []) s
      in case drain_engine e s1 of
           None \<Rightarrow> None
         | Some (Inl err, s2) \<Rightarrow> Some (Inl err, s2)
         | Some (Inr dataList, s2) \<Rightarrow> Some (post_process e a dataList s2))"

subsection \<open>Main program loop\<close>

definition list_services :: "env \<Rightarrow> state \<Rightarrow> state" where
  "list_services e s =
     fold (\<lambda>(service, chars) s1.
             fold (\<lambda>(char, properties).
                     emit (Log DEBUG ''Characteristics {} | {}'' [VStr char, VStrs properties]))
                  chars (emit (Log DEBUG ''Service {}'' [VStr service]) s1))
          (services e) s"

text \<open>The body of \<^verbatim>\<open>async with BleakClient(device, timeout) as client\<close>.\<close>

definition session :: "env \<Rightarrow> args \<Rightarrow> ble_device \<Rightarrow> state
    \<Rightarrow> ((error + unit) \<times> state) option" where
  "session e a device s =
     (let s1 = emit (Log INFO ''Connected to device {}'' [VDev device]) s;
          s2 = list_services e s1
      in case (case interval a of
                 None \<Rightarrow> (Inr (), s2)
               | Some requested \<Rightarrow> set_interval e requested s2) of
           (Inl err, s3) \<Rightarrow> Some (Inl err, s3)
         | (Inr _, s3) \<Rightarrow>
             if mode a = ''scan'' then scan_mode e a s3
             else if mode a = ''download'' then download_mode e a s3
             else Some (Inr (), s3))"

text \<open>
  The device is looked up by address when \<^verbatim>\<open>args.addr\<close> is a non-empty string;
  \<^verbatim>\<open>assert device\<close> holds for every device that the lookup returns. A connection that
  cannot be made raises before the session starts. The session is left through the
  context manager, which disconnects whether the body ended or raised; the last log
  line is only reached when it ended. The function \<^verbatim>\<open>deviceKey\<close> of the source is
  never called and has no counterpart here.
\<close>

definition loop :: "env \<Rightarrow> args \<Rightarrow> state \<Rightarrow> ((error + unit) \<times> state) option" where
  "loop e a s =
     (case (case addr a of
              None \<Rightarrow> discoverDevice e (timeout a) (arg_rssi a) s
            | Some ad \<Rightarrow>
                if ad \<noteq> [] then getDevice e ad (timeout a) s
                else discoverDevice e (timeout a) (arg_rssi a) s) of
        (Inl err, s1) \<Rightarrow> Some (Inl err, s1)
      | (Inr device, s1) \<Rightarrow>
          (let s2 = emit (Log INFO ''Using device {}'' [VDev device]) s1;
               s3 = emit (Connect device (timeout a)) s2
           in if \<not> connect_ok e then Some (Inl BleakError, s3)
              else
                (case session e a device s3 of
                   None \<Rightarrow> None
                 | Some (Inl err, s4) \<Rightarrow> Some (Inl err, emit Disconnect s4)
                 | Some (Inr _, s4) \<Rightarrow>
                     Some (Inr (), emit (Log INFO ''Disconnected from device {}'' [VDev device])
                                     (emit Disconnect s4)))))"

text \<open>
  \<^verbatim>\<open>asyncio.run(loop(args))\<close> as the last statement of the script: the exit status of
  the process is 0 when the loop returns, the code of \<^verbatim>\<open>sys.exit\<close> when it was
  called, and 1 after any other exception.
\<close>

definition exit_status :: "error + unit \<Rightarrow> int" where
  "exit_status r = (case r of Inr _ \<Rightarrow> 0 | Inl (SystemExit code) \<Rightarrow> code | Inl _ \<Rightarrow> 1)"

section \<open>Scenarios\<close>

text \<open>Concrete surroundings on which the properties below are exercised.\<close>

definition demo_nano :: ble_device where
  "demo_nano = \<lparr>address = ''C0:FF:EE:00:00:01'', name = ''NanoPressure''\<rparr>"

definition demo_far :: ble_device where
  "demo_far = \<lparr>address = ''C0:FF:EE:00:00:02'', name = ''Far away''\<rparr>"

definition demo_env :: env where
  "demo_env =
     \<lparr>sys_byteorder = Little,
      discovered = [(''C0:FF:EE:00:00:02'', demo_far, \<lparr>rssi = - 80\<rparr>),
                    (''C0:FF:EE:00:00:01'', demo_nano, \<lparr>rssi = - 60\<rparr>)],
      found_by_address = (\<lambda>a. if a = ''C0:FF:EE:00:00:01'' then Some demo_nano else None),
      menu_choice = (\<lambda>entries. Some 1),
      connect_ok = True,
      services = [],
      gatt_resp = (\<lambda>handle k. None),
      write_ok = True,
      notify_ok = True,
      notifications = [[0x80, 0xE6, 0xC5, 0x47], [0, 0xDA, 0xC5, 0x47]],
      arriving_signal = Some SIGINT,
      wall_clock = (\<lambda>k. 1000),
      open_ok = True\<rparr>"

text \<open>The command line's defaults.\<close>

definition demo_args :: args where
  "demo_args =
     \<lparr>mode = ''scan'', addr = None, arg_rssi = - 80, timeout = 5, interval = None,
      newline = False, filename = ''pressure.txt'', overwrite = False\<rparr>"

text \<open>A device that holds 100 entries and samples once a second.\<close>

definition config_env :: env where
  "config_env =
     demo_env\<lparr>gatt_resp := (\<lambda>handle k.
        if handle = handle_interval then Some [1, 0, 0, 0]
        else if handle = handle_pressureCounts then Some [100, 0, 0, 0]
        else None)\<rparr>"

text \<open>
  A device that reports two entries, then one more that came in meanwhile, then none.
  Its clock reads 1000 ms; the entries are 101325 Pa at 250 ms, 101300 Pa at 500 ms
  and 101275 Pa at 750 ms.
\<close>

definition download_env :: env where
  "download_env =
     demo_env\<lparr>gatt_resp := (\<lambda>handle k.
        if handle = handle_pressureCounts then
          (if k < 3 then Some ([[2, 0, 0, 0], [1, 0, 0, 0], [0, 0, 0, 0]] ! k) else None)
        else if handle = handle_pressureHistory then
          (if k < 3 then Some ([[0x80, 0xE6, 0xC5, 0x47, 250, 0, 0, 0],
                                [0, 0xDA, 0xC5, 0x47, 0xF4, 1, 0, 0],
                                [0x80, 0xCD, 0xC5, 0x47, 0xEE, 2, 0, 0]] ! k) else None)
        else if handle = handle_deviceTime then Some [0xE8, 3, 0, 0]
        else None)\<rparr>"

text \<open>A device whose history is empty.\<close>

definition empty_env :: env where
  "empty_env =
     demo_env\<lparr>gatt_resp := (\<lambda>handle k.
        if handle = handle_pressureCounts then Some [0, 0, 0, 0]
        else if handle = handle_deviceTime then Some [0xE8, 3, 0, 0]
        else None)\<rparr>"

section \<open>What the device answers\<close>

text \<open>
  \<open>count_reads e k cs\<close>: from its \<open>k\<close>-th read on, the count characteristic answers
  with the numbers \<open>cs\<close>, one after the other. \<open>history_reads e k entries\<close>: from
  its \<open>k\<close>-th read on, the history characteristic answers with records that decode to
  \<open>entries\<close>.
\<close>

fun count_reads :: "env \<Rightarrow> nat \<Rightarrow> nat list \<Rightarrow> bool" where
  "count_reads e k [] = True"
| "count_reads e k (c # cs) =
     ((case gatt_resp e handle_pressureCounts k of
         None \<Rightarrow> False
       | Some data \<Rightarrow> unpack_I data = Inr c)
      \<and> count_reads e (Suc k) cs)"

fun history_reads :: "env \<Rightarrow> nat \<Rightarrow> sample list \<Rightarrow> bool" where
  "history_reads e k [] = True"
| "history_reads e k (x # xs) =
     ((case gatt_resp e handle_pressureHistory k of
         None \<Rightarrow> False
       | Some data \<Rightarrow> unpack_fI data = Inr x)
      \<and> history_reads e (Suc k) xs)"

fun is_read :: "event \<Rightarrow> bool" where
  "is_read (ReadChar handle) = True"
| "is_read _ = False"

text \<open>The events by which a session in scan mode comes to its end.\<close>

fun shutdown_step :: "event \<Rightarrow> bool" where
  "shutdown_step Wait = True"
| "shutdown_step (Received sg) = True"
| "shutdown_step (StopNotify handle) = True"
| "shutdown_step Disconnect = True"
| "shutdown_step _ = False"

section \<open>Properties\<close>

subsection \<open>Traces\<close>

lemma trace_emit: "trace (emit ev s) = trace s @ [ev]"
  by (simp add: emit_def)

lemma trace_report_found:
  "trace (report_found devices s) =
     trace s @ map (\<lambda>(a, device, adv). Log INFO ''Found device {} (RSSI = {} dB)''
                                        [VDev device, VInt (rssi adv)]) devices"
  unfolding report_found_def
  by (induction devices arbitrary: s) (auto simp: emit_def)

lemma report_found_other:
  "reads (report_found devices s) = reads s"
  "ticks (report_found devices s) = ticks s"
  "eol (report_found devices s) = eol s"
  unfolding report_found_def
  by (induction devices arbitrary: s) (auto simp: emit_def)

subsection \<open>Device locator\<close>

text \<open>
  C5. The candidates that remain after the filter are exactly the advertised devices
  whose signal strength is strictly greater than the minimum, and a device that
  interactive discovery returns was advertised with a signal strength strictly greater
  than the minimum.
\<close>

theorem discover_keeps_strong:
  "set (keep_rssi minimum_rssi devices) =
     {(a, device, adv). (a, device, adv) \<in> set devices \<and> minimum_rssi < rssi adv}
   \<and> (\<forall>e tmo s device s1.
         discoverDevice e tmo minimum_rssi s = (Inr device, s1) \<longrightarrow>
         (\<exists>a adv. (a, device, adv) \<in> set (discovered e) \<and> minimum_rssi < rssi adv))"
proof (intro conjI allI impI)
  show "set (keep_rssi minimum_rssi devices) =
     {(a, device, adv). (a, device, adv) \<in> set devices \<and> minimum_rssi < rssi adv}"
    by (auto simp: keep_rssi_def)
next
  fix e tmo s device s1
  assume run: "discoverDevice e tmo minimum_rssi s = (Inr device, s1)"
  define kept where "kept = keep_rssi minimum_rssi (discovered e)"
  have sub: "\<And>x. x \<in> set kept \<Longrightarrow> x \<in> set (discovered e) \<and> minimum_rssi < rssi (snd (snd x))"
    by (auto simp: kept_def keep_rssi_def)
  have "\<exists>x \<in> set kept. fst (snd x) = device"
  proof (cases "length kept = 1")
    case True
    then obtain x where "kept = [x]" by (cases kept) auto
    with run show ?thesis
      by (simp add: discoverDevice_def Let_def kept_def [symmetric])
  next
    case False
    with run obtain i where i: "i < length kept"
        and dev: "device = map (\<lambda>(a, device, adv). device) kept ! i"
      by (auto simp: discoverDevice_def Let_def kept_def [symmetric]
               split: if_splits option.splits)
    then have "fst (snd (kept ! i)) = device"
      by (simp add: case_prod_unfold)
    with i show ?thesis by (metis nth_mem)
  qed
  then obtain x where "x \<in> set kept" "fst (snd x) = device" by blast
  with sub [of x] show "\<exists>a adv. (a, device, adv) \<in> set (discovered e) \<and> minimum_rssi < rssi adv"
    by (cases x) auto
qed

theorem discover_keeps_strong_witness:
  "fst (discoverDevice demo_env 5 (- 80) initial) = Inr demo_nano
   \<and> (\<exists>a adv. (a, demo_nano, adv) \<in> set (discovered demo_env) \<and> - 80 < rssi adv)
   \<and> (''C0:FF:EE:00:00:02'', demo_far, \<lparr>rssi = - 80\<rparr>)
         \<notin> set (keep_rssi (- 80) (discovered demo_env))"
proof -
  have run: "discoverDevice demo_env 5 (- 80) initial =
      (Inr demo_nano, snd (discoverDevice demo_env 5 (- 80) initial))"
    by (simp add: discoverDevice_def demo_env_def keep_rssi_def Let_def)
  note inst = discover_keeps_strong [of "- 80" "discovered demo_env"]
  from inst run have "\<exists>a adv. (a, demo_nano, adv) \<in> set (discovered demo_env) \<and> - 80 < rssi adv"
    by blast
  moreover from inst have "(''C0:FF:EE:00:00:02'', demo_far, \<lparr>rssi = - 80\<rparr>)
         \<notin> set (keep_rssi (- 80) (discovered demo_env))"
    by simp
  moreover from run have "fst (discoverDevice demo_env 5 (- 80) initial) = Inr demo_nano"
    by (metis fst_conv)
  ultimately show ?thesis by blast
qed

lemma report_found_Nil: "report_found [] s = s"
  by (simp add: report_found_def)

lemma report_found_state:
  "report_found devices s =
     s\<lparr>trace := trace s @ map (\<lambda>(a, device, adv). Log INFO ''Found device {} (RSSI = {} dB)''
                                        [VDev device, VInt (rssi adv)]) devices\<rparr>"
  unfolding report_found_def
  by (induction devices arbitrary: s) (auto simp: emit_def)

text \<open>
  C7. When the lookup by address finds no device, or no advertised device passes the
  signal-strength filter, the program logs the error (for the empty filter result, the
  message that points to the option \<^verbatim>\<open>--rssi\<close>) and ends with \<^verbatim>\<open>sys.exit(1)\<close>:
  the trace holds one lookup or one scan and nothing after the error message, and the
  exit status is 1.
\<close>

theorem resolution_failure_is_fatal:
  "(addr a = Some ad \<and> ad \<noteq> [] \<and> found_by_address e ad = None \<longrightarrow>
      loop e a s =
        Some (Inl (SystemExit 1),
              s\<lparr>trace := trace s @
                   [FindByAddress ad (timeout a),
                    Log ERROR ''Could not find device with address {}'' [VStr ad]]\<rparr>))
   \<and> ((addr a = None \<or> addr a = Some []) \<and> keep_rssi (arg_rssi a) (discovered e) = [] \<longrightarrow>
      loop e a s =
        Some (Inl (SystemExit 1),
              s\<lparr>trace := trace s @
                   [Log INFO ''Scanning for bluetooth devices...'' [],
                    Discover (timeout a),
                    Log ERROR
                      ''Could not find any devices, check minimum RSSI level (option: --rssi)''
                      []]\<rparr>))
   \<and> exit_status (Inl (SystemExit 1)) = 1"
  by (auto simp: loop_def getDevice_def discoverDevice_def emit_def Let_def
                 report_found_Nil exit_status_def)

theorem resolution_failure_is_fatal_witness:
  "loop demo_env (demo_args\<lparr>addr := Some ''00:00''\<rparr>) initial =
     Some (Inl (SystemExit 1),
           initial\<lparr>trace :=
              [FindByAddress ''00:00'' 5,
               Log ERROR ''Could not find device with address {}'' [VStr ''00:00'']]\<rparr>)
   \<and> loop demo_env (demo_args\<lparr>arg_rssi := - 50\<rparr>) initial =
     Some (Inl (SystemExit 1),
           initial\<lparr>trace :=
              [Log INFO ''Scanning for bluetooth devices...'' [],
               Discover 5,
               Log ERROR
                 ''Could not find any devices, check minimum RSSI level (option: --rssi)''
                 []]\<rparr>)"
proof -
  have by_address: "addr (demo_args\<lparr>addr := Some ''00:00''\<rparr>) = Some ''00:00''
      \<and> ''00:00'' \<noteq> [] \<and> found_by_address demo_env ''00:00'' = None"
    by (simp add: demo_env_def)
  have by_scan: "(addr (demo_args\<lparr>arg_rssi := - 50\<rparr>) = None
        \<or> addr (demo_args\<lparr>arg_rssi := - 50\<rparr>) = Some [])
      \<and> keep_rssi (arg_rssi (demo_args\<lparr>arg_rssi := - 50\<rparr>)) (discovered demo_env) = []"
    by (simp add: demo_env_def demo_args_def keep_rssi_def)
  from by_address
    resolution_failure_is_fatal [of "demo_args\<lparr>addr := Some ''00:00''\<rparr>" "''00:00''"
      demo_env initial]
  have "loop demo_env (demo_args\<lparr>addr := Some ''00:00''\<rparr>) initial =
     Some (Inl (SystemExit 1),
           initial\<lparr>trace :=
              [FindByAddress ''00:00'' 5,
               Log ERROR ''Could not find device with address {}'' [VStr ''00:00'']]\<rparr>)"
    by (simp add: demo_args_def initial_def)
  moreover from by_scan
    resolution_failure_is_fatal [of "demo_args\<lparr>arg_rssi := - 50\<rparr>" "[]" demo_env initial]
  have "loop demo_env (demo_args\<lparr>arg_rssi := - 50\<rparr>) initial =
     Some (Inl (SystemExit 1),
           initial\<lparr>trace :=
              [Log INFO ''Scanning for bluetooth devices...'' [],
               Discover 5,
               Log ERROR
                 ''Could not find any devices, check minimum RSSI level (option: --rssi)''
                 []]\<rparr>)"
    by (simp add: demo_args_def initial_def)
  ultimately show ?thesis by blast
qed

text \<open>
  C8. When exactly one candidate passes the filter it is returned and no menu is shown;
  when several pass, one menu with one entry per candidate is shown and the device at
  the chosen entry is returned.
\<close>

theorem discover_selection:
  "(keep_rssi minimum_rssi (discovered e) = [(ad, device, adv)] \<longrightarrow>
      discoverDevice e tmo minimum_rssi s =
        (Inr device,
         s\<lparr>trace := trace s @
              [Log INFO ''Scanning for bluetooth devices...'' [],
               Discover tmo,
               Log INFO ''Found device {} (RSSI = {} dB)'' [VDev device, VInt (rssi adv)]]\<rparr>))
   \<and> (1 < length (keep_rssi minimum_rssi (discovered e))
        \<and> menu_choice e (map (\<lambda>(a, device, adv). str_device device)
                            (keep_rssi minimum_rssi (discovered e))) = Some i
        \<and> i < length (keep_rssi minimum_rssi (discovered e)) \<longrightarrow>
      discoverDevice e tmo minimum_rssi s =
        (Inr (fst (snd (keep_rssi minimum_rssi (discovered e) ! i))),
         s\<lparr>trace := trace s @
              [Log INFO ''Scanning for bluetooth devices...'' [], Discover tmo] @
              map (\<lambda>(a, device, adv). Log INFO ''Found device {} (RSSI = {} dB)''
                                        [VDev device, VInt (rssi adv)])
                  (keep_rssi minimum_rssi (discovered e)) @
              [Menu (map (\<lambda>(a, device, adv). str_device device)
                         (keep_rssi minimum_rssi (discovered e)))
                    ''Please select your device:'']\<rparr>))"
proof (intro conjI impI)
  assume "keep_rssi minimum_rssi (discovered e) = [(ad, device, adv)]"
  then show "discoverDevice e tmo minimum_rssi s =
        (Inr device,
         s\<lparr>trace := trace s @
              [Log INFO ''Scanning for bluetooth devices...'' [],
               Discover tmo,
               Log INFO ''Found device {} (RSSI = {} dB)'' [VDev device, VInt (rssi adv)]]\<rparr>)"
    by (simp add: discoverDevice_def Let_def report_found_state emit_def)
next
  define kept where "kept = keep_rssi minimum_rssi (discovered e)"
  assume "1 < length (keep_rssi minimum_rssi (discovered e))
        \<and> menu_choice e (map (\<lambda>(a, device, adv). str_device device)
                            (keep_rssi minimum_rssi (discovered e))) = Some i
        \<and> i < length (keep_rssi minimum_rssi (discovered e))"
  then have many: "1 < length kept"
    and choice: "menu_choice e (map (\<lambda>(a, device, adv). str_device device) kept) = Some i"
    and i: "i < length kept"
    by (simp_all add: kept_def)
  have entries: "map (str_device \<circ> (\<lambda>(a, device, adv). device)) kept =
      map (\<lambda>(a, device, adv). str_device device) kept"
    by (simp add: case_prod_unfold comp_def)
  from many have ne: "kept \<noteq> []" "length kept \<noteq> 1" by auto
  from i have nth: "map (\<lambda>(a, device, adv). device) kept ! i = fst (snd (kept ! i))"
    by (simp add: case_prod_unfold)
  show "discoverDevice e tmo minimum_rssi s =
        (Inr (fst (snd (keep_rssi minimum_rssi (discovered e) ! i))),
         s\<lparr>trace := trace s @
              [Log INFO ''Scanning for bluetooth devices...'' [], Discover tmo] @
              map (\<lambda>(a, device, adv). Log INFO ''Found device {} (RSSI = {} dB)''
                                        [VDev device, VInt (rssi adv)])
                  (keep_rssi minimum_rssi (discovered e)) @
              [Menu (map (\<lambda>(a, device, adv). str_device device)
                         (keep_rssi minimum_rssi (discovered e)))
                    ''Please select your device:'']\<rparr>)"
    unfolding kept_def [symmetric]
    using ne i choice
    by (simp add: discoverDevice_def Let_def kept_def [symmetric] entries nth
                  report_found_state emit_def)
qed


theorem discover_selection_witness:
  "discoverDevice demo_env 5 (- 80) initial =
     (Inr demo_nano,
      initial\<lparr>trace :=
         [Log INFO ''Scanning for bluetooth devices...'' [],
          Discover 5,
          Log INFO ''Found device {} (RSSI = {} dB)'' [VDev demo_nano, VInt (- 60)]]\<rparr>)
   \<and> fst (discoverDevice demo_env 5 (- 90) initial) = Inr demo_nano
   \<and> last (trace (snd (discoverDevice demo_env 5 (- 90) initial))) =
       Menu [''C0:FF:EE:00:00:02: Far away'', ''C0:FF:EE:00:00:01: NanoPressure'']
            ''Please select your device:''"
proof -
  have one: "keep_rssi (- 80) (discovered demo_env) =
      [(''C0:FF:EE:00:00:01'', demo_nano, \<lparr>rssi = - 60\<rparr>)]"
    by (simp add: demo_env_def keep_rssi_def)
  have kept: "keep_rssi (- 90) (discovered demo_env) =
      [(''C0:FF:EE:00:00:02'', demo_far, \<lparr>rssi = - 80\<rparr>),
       (''C0:FF:EE:00:00:01'', demo_nano, \<lparr>rssi = - 60\<rparr>)]"
    by (simp add: demo_env_def keep_rssi_def)
  have many: "1 < length (keep_rssi (- 90) (discovered demo_env))
      \<and> menu_choice demo_env (map (\<lambda>(a, device, adv). str_device device)
                            (keep_rssi (- 90) (discovered demo_env))) = Some 1
      \<and> 1 < length (keep_rssi (- 90) (discovered demo_env))"
    by (simp add: kept) (simp add: demo_env_def)
  from one discover_selection [of "- 80" demo_env "''C0:FF:EE:00:00:01''" demo_nano
      "\<lparr>rssi = - 60\<rparr>" 5 initial]
  have "discoverDevice demo_env 5 (- 80) initial =
     (Inr demo_nano,
      initial\<lparr>trace :=
         [Log INFO ''Scanning for bluetooth devices...'' [],
          Discover 5,
          Log INFO ''Found device {} (RSSI = {} dB)'' [VDev demo_nano, VInt (- 60)]]\<rparr>)"
    by (simp add: initial_def)
  moreover from many discover_selection [of "- 90" demo_env _ _ _ 5 initial 1]
  have "discoverDevice demo_env 5 (- 90) initial =
        (Inr (fst (snd (keep_rssi (- 90) (discovered demo_env) ! 1))),
         initial\<lparr>trace := trace initial @
              [Log INFO ''Scanning for bluetooth devices...'' [], Discover 5] @
              map (\<lambda>(a, device, adv). Log INFO ''Found device {} (RSSI = {} dB)''
                                        [VDev device, VInt (rssi adv)])
                  (keep_rssi (- 90) (discovered demo_env)) @
              [Menu (map (\<lambda>(a, device, adv). str_device device)
                         (keep_rssi (- 90) (discovered demo_env)))
                    ''Please select your device:'']\<rparr>)"
    by blast
  then have "fst (discoverDevice demo_env 5 (- 90) initial) = Inr demo_nano
     \<and> last (trace (snd (discoverDevice demo_env 5 (- 90) initial))) =
       Menu [''C0:FF:EE:00:00:02: Far away'', ''C0:FF:EE:00:00:01: NanoPressure'']
            ''Please select your device:''"
    by (simp add: kept str_device_def demo_far_def demo_nano_def)
  ultimately show ?thesis by blast
qed

subsection \<open>History drain\<close>

lemma handles_distinct:
  "handle_pressureHistory \<noteq> handle_pressureCounts"
  "handle_pressureCounts \<noteq> handle_pressureHistory"
  by (simp_all add: handle_pressureHistory_def handle_pressureCounts_def)

lemma history_reads_append:
  "history_reads e k (xs @ ys) \<longleftrightarrow>
     history_reads e k xs \<and> history_reads e (k + length xs) ys"
  by (induction xs arbitrary: k) auto

lemma read_batch_ok:
  "history_reads e (reads s handle_pressureHistory) entries \<Longrightarrow>
   \<exists>s1. read_batch e counts (length entries) dataList s = (Inr (dataList @ entries), s1)
      \<and> reads s1 = (reads s)(handle_pressureHistory :=
                                  reads s handle_pressureHistory + length entries)
      \<and> ticks s1 = ticks s
      \<and> filter is_read (trace s1) =
          filter is_read (trace s) @ replicate (length entries) (ReadChar handle_pressureHistory)"
proof (induction entries arbitrary: dataList s)
  case Nil
  then show ?case by simp
next
  case (Cons x xs)
  from Cons.prems obtain data where
    resp: "gatt_resp e handle_pressureHistory (reads s handle_pressureHistory) = Some data"
    and dec: "unpack_fI data = Inr x"
    and rest: "history_reads e (Suc (reads s handle_pressureHistory)) xs"
    by (auto split: option.splits)
  define s2 where "s2 = emit (Print ''Reading {:10d} of {}''
        [VInt (int (length (dataList @ [x]))), VInt (int counts)] [CHR 0x0D])
      (emit (ReadChar handle_pressureHistory)
        (s\<lparr>reads := (reads s)(handle_pressureHistory := Suc (reads s handle_pressureHistory))\<rparr>))"
  have step: "read_batch e counts (length (x # xs)) dataList s =
      read_batch e counts (length xs) (dataList @ [x]) s2"
    using resp dec by (simp add: read_gatt_char_def Let_def s2_def)
  have s2: "reads s2 = (reads s)(handle_pressureHistory := Suc (reads s handle_pressureHistory))"
    "ticks s2 = ticks s"
    "filter is_read (trace s2) = filter is_read (trace s) @ [ReadChar handle_pressureHistory]"
    by (simp_all add: s2_def emit_def)
  from rest s2(1) have "history_reads e (reads s2 handle_pressureHistory) xs" by simp
  from Cons.IH [OF this, of "dataList @ [x]"] obtain s1 where
    s1: "read_batch e counts (length xs) (dataList @ [x]) s2 = (Inr ((dataList @ [x]) @ xs), s1)"
      "reads s1 = (reads s2)(handle_pressureHistory := reads s2 handle_pressureHistory + length xs)"
      "ticks s1 = ticks s2"
      "filter is_read (trace s1) =
          filter is_read (trace s2) @ replicate (length xs) (ReadChar handle_pressureHistory)"
    by blast
  show ?case
    using step s1 s2 by (auto simp: replicate_append_same)
qed

lemma readCounts_ok:
  "gatt_resp e handle (reads s handle) = Some data \<Longrightarrow> unpack_I data = Inr c \<Longrightarrow>
   readCounts e handle s =
     (Inr c, s\<lparr>reads := (reads s)(handle := Suc (reads s handle)),
               trace := trace s @ [ReadChar handle,
                  Log INFO ''Found {} pressure values on device'' [VInt (int c)]]\<rparr>)"
  by (simp add: readCounts_def io_bind_def io_lift_def io_emit_def read_gatt_char_def
        emit_def Let_def)

lemma drain_zero: "drain e 0 dataList s = Some (Inr dataList, s)"
  by (simp add: drain.simps)

lemma drain_ok:
  "\<forall>c \<in> set (c0 # cs). 0 < c \<Longrightarrow>
   count_reads e (reads s handle_pressureCounts) (cs @ [0]) \<Longrightarrow>
   history_reads e (reads s handle_pressureHistory) entries \<Longrightarrow>
   length entries = sum_list (c0 # cs) \<Longrightarrow>
   \<exists>s1. drain e c0 dataList s = Some (Inr (dataList @ entries), s1)
      \<and> reads s1 handle_pressureHistory = reads s handle_pressureHistory + sum_list (c0 # cs)
      \<and> reads s1 handle_pressureCounts = reads s handle_pressureCounts + length cs + 1
      \<and> ticks s1 = ticks s
      \<and> filter is_read (trace s1) =
          filter is_read (trace s) @ replicate c0 (ReadChar handle_pressureHistory) @
          concat (map (\<lambda>c. ReadChar handle_pressureCounts #
                             replicate c (ReadChar handle_pressureHistory)) cs) @
          [ReadChar handle_pressureCounts]"
proof (induction cs arbitrary: c0 s dataList entries)
  case Nil
  then have pos: "0 < c0" and len: "length entries = c0" by simp_all
  from Nil.prems(3) read_batch_ok [of e s entries c0 dataList] len obtain s1 where
    s1: "read_batch e c0 c0 dataList s = (Inr (dataList @ entries), s1)"
      "reads s1 = (reads s)(handle_pressureHistory := reads s handle_pressureHistory + c0)"
      "ticks s1 = ticks s"
      "filter is_read (trace s1) =
          filter is_read (trace s) @ replicate c0 (ReadChar handle_pressureHistory)"
    by auto
  from Nil.prems(2) s1(2) obtain data where
    resp: "gatt_resp e handle_pressureCounts (reads s1 handle_pressureCounts) = Some data"
    and dec: "unpack_I data = Inr 0"
    by (auto simp: handles_distinct split: option.splits)
  note rc = readCounts_ok [OF resp dec]
  show ?case
    using pos s1 rc
    by (subst drain.simps) (simp add: drain_zero handles_distinct)
next
  case (Cons c cs)
  then have pos: "0 < c0" and posc: "\<forall>x \<in> set (c # cs). 0 < x"
    and len: "length entries = c0 + sum_list (c # cs)" by simp_all
  define first where "first = take c0 entries"
  define later where "later = drop c0 entries"
  have split: "entries = first @ later" and lf: "length first = c0"
    and ll: "length later = sum_list (c # cs)"
    using len by (simp_all add: first_def later_def)
  from Cons.prems(3) split lf
  have h1: "history_reads e (reads s handle_pressureHistory) first"
    and h2: "history_reads e (reads s handle_pressureHistory + c0) later"
    by (simp_all add: history_reads_append)
  from h1 read_batch_ok [of e s first c0 dataList] lf obtain s1 where
    s1: "read_batch e c0 c0 dataList s = (Inr (dataList @ first), s1)"
      "reads s1 = (reads s)(handle_pressureHistory := reads s handle_pressureHistory + c0)"
      "ticks s1 = ticks s"
      "filter is_read (trace s1) =
          filter is_read (trace s) @ replicate c0 (ReadChar handle_pressureHistory)"
    by auto
  from Cons.prems(2) s1(2) obtain data where
    resp: "gatt_resp e handle_pressureCounts (reads s1 handle_pressureCounts) = Some data"
    and dec: "unpack_I data = Inr c"
    and more: "count_reads e (Suc (reads s handle_pressureCounts)) (cs @ [0])"
    by (auto simp: handles_distinct split: option.splits)
  define s2 where "s2 = s1\<lparr>reads := (reads s1)(handle_pressureCounts :=
                                  Suc (reads s1 handle_pressureCounts)),
               trace := trace s1 @ [ReadChar handle_pressureCounts,
                  Log INFO ''Found {} pressure values on device'' [VInt (int c)]]\<rparr>"
  have rc: "readCounts e handle_pressureCounts s1 = (Inr c, s2)"
    using readCounts_ok [OF resp dec] by (simp add: s2_def)
  have s2: "reads s2 handle_pressureCounts = Suc (reads s handle_pressureCounts)"
    "reads s2 handle_pressureHistory = reads s handle_pressureHistory + c0"
    "ticks s2 = ticks s"
    "filter is_read (trace s2) =
       filter is_read (trace s) @ replicate c0 (ReadChar handle_pressureHistory) @
       [ReadChar handle_pressureCounts]"
    using s1 by (simp_all add: s2_def handles_distinct)
  from more s2(1) have c2: "count_reads e (reads s2 handle_pressureCounts) (cs @ [0])" by simp
  from h2 s2(2) have h2': "history_reads e (reads s2 handle_pressureHistory) later" by simp
  from Cons.IH [OF posc c2 h2' ll, of "dataList @ first"] obtain s3 where
    s3: "drain e c (dataList @ first) s2 = Some (Inr ((dataList @ first) @ later), s3)"
      "reads s3 handle_pressureHistory = reads s2 handle_pressureHistory + sum_list (c # cs)"
      "reads s3 handle_pressureCounts = reads s2 handle_pressureCounts + length cs + 1"
      "ticks s3 = ticks s2"
      "filter is_read (trace s3) =
          filter is_read (trace s2) @ replicate c (ReadChar handle_pressureHistory) @
          concat (map (\<lambda>c. ReadChar handle_pressureCounts #
                             replicate c (ReadChar handle_pressureHistory)) cs) @
          [ReadChar handle_pressureCounts]"
    by blast
  have "drain e c0 dataList s = drain e c (dataList @ first) s2"
    using pos s1(1) rc by (subst drain.simps) simp
  with s3 s2 split show ?case by simp
qed

lemma drain_engine_zero:
  assumes "count_reads e (reads s handle_pressureCounts) [0]"
  shows "drain_engine e s =
          Some (Inr [],
                s\<lparr>reads := (reads s)(handle_pressureCounts :=
                             Suc (reads s handle_pressureCounts)),
                  ticks := Suc (Suc (ticks s)),
                  trace := trace s @
                    [ReadChar handle_pressureCounts,
                     Log INFO ''Found {} pressure values on device'' [VInt 0],
                     Log INFO ''Read {} values in {} seconds''
                       [VInt 0,
                        VReal (wall_clock e (Suc (ticks s)) - wall_clock e (ticks s))]]\<rparr>)"
proof -
  from assms obtain data where
    resp: "gatt_resp e handle_pressureCounts (reads s handle_pressureCounts) = Some data"
    and dec: "unpack_I data = Inr 0"
    by (auto split: option.splits)
  show ?thesis
    using readCounts_ok [OF resp dec]
    by (simp add: drain_engine_def drain_zero time_time_def emit_def)
qed

text \<open>
  C1. Let the count characteristic answer \<open>C1, ..., Ck\<close>, all positive, and then 0,
  and let the history characteristic answer with records that decode to \<open>entries\<close>,
  as many as \<open>C1 + ... + Ck\<close>. Then the drain ends and returns exactly these
  entries in the order read: it has read the history \<open>C1 + ... + Ck\<close> times and the
  count \<open>k + 1\<close> times, and its reads are, in order, one count read followed by
  \<open>C\<close> history reads for each count \<open>C\<close>, and one last count read.
\<close>

theorem drain_reads_all:
  assumes "\<forall>c \<in> set cs. 0 < c"
    and "count_reads e (reads s handle_pressureCounts) (cs @ [0])"
    and "history_reads e (reads s handle_pressureHistory) entries"
    and "length entries = sum_list cs"
  shows "\<exists>s1. drain_engine e s = Some (Inr entries, s1)
     \<and> reads s1 handle_pressureHistory = reads s handle_pressureHistory + sum_list cs
     \<and> reads s1 handle_pressureCounts = reads s handle_pressureCounts + length cs + 1
     \<and> filter is_read (trace s1) =
          filter is_read (trace s) @
          concat (map (\<lambda>c. ReadChar handle_pressureCounts #
                             replicate c (ReadChar handle_pressureHistory)) cs) @
          [ReadChar handle_pressureCounts]"
proof (cases cs)
  case Nil
  with assms(2) obtain data where
    resp: "gatt_resp e handle_pressureCounts (reads s handle_pressureCounts) = Some data"
    and dec: "unpack_I data = Inr 0"
    by (auto split: option.splits)
  from Nil assms(4) have "entries = []" by simp
  then show ?thesis
    using Nil readCounts_ok [OF resp dec]
    by (simp add: drain_engine_def drain_zero time_time_def emit_def handles_distinct)
next
  case (Cons c rest)
  with assms(2) obtain data where
    resp: "gatt_resp e handle_pressureCounts (reads s handle_pressureCounts) = Some data"
    and dec: "unpack_I data = Inr c"
    and more: "count_reads e (Suc (reads s handle_pressureCounts)) (rest @ [0])"
    by (auto split: option.splits)
  define s1 where "s1 = s\<lparr>reads := (reads s)(handle_pressureCounts :=
                                  Suc (reads s handle_pressureCounts)),
               trace := trace s @ [ReadChar handle_pressureCounts,
                  Log INFO ''Found {} pressure values on device'' [VInt (int c)]]\<rparr>"
  define s2 where "s2 = s1\<lparr>ticks := Suc (ticks s1)\<rparr>"
  have rc: "readCounts e handle_pressureCounts s = (Inr c, s1)"
    using readCounts_ok [OF resp dec] by (simp add: s1_def)
  have tt: "time_time e s1 = (wall_clock e (ticks s), s2)"
    by (simp add: time_time_def s1_def s2_def)
  have s2: "reads s2 handle_pressureCounts = Suc (reads s handle_pressureCounts)"
    "reads s2 handle_pressureHistory = reads s handle_pressureHistory"
    "filter is_read (trace s2) = filter is_read (trace s) @ [ReadChar handle_pressureCounts]"
    by (simp_all add: s1_def s2_def handles_distinct)
  from assms(1) Cons have pos: "\<forall>x \<in> set (c # rest). 0 < x" by simp
  from more s2(1) have c2: "count_reads e (reads s2 handle_pressureCounts) (rest @ [0])" by simp
  from assms(3) s2(2) have h2: "history_reads e (reads s2 handle_pressureHistory) entries"
    by simp
  from assms(4) Cons have len: "length entries = sum_list (c # rest)" by simp
  from drain_ok [OF pos c2 h2 len, of "[]"] obtain s3 where
    s3: "drain e c [] s2 = Some (Inr entries, s3)"
      "reads s3 handle_pressureHistory = reads s2 handle_pressureHistory + sum_list (c # rest)"
      "reads s3 handle_pressureCounts = reads s2 handle_pressureCounts + length rest + 1"
      "filter is_read (trace s3) =
          filter is_read (trace s2) @ replicate c (ReadChar handle_pressureHistory) @
          concat (map (\<lambda>c. ReadChar handle_pressureCounts #
                             replicate c (ReadChar handle_pressureHistory)) rest) @
          [ReadChar handle_pressureCounts]"
    by auto
  show ?thesis
    using rc tt s3 s2 Cons
    by (simp add: drain_engine_def time_time_def emit_def)
qed

theorem drain_reads_all_witness:
  "\<exists>s1. drain_engine download_env initial =
          Some (Inr [(Finite 101325, 250), (Finite 101300, 500), (Finite 101275, 750)], s1)
     \<and> reads s1 handle_pressureHistory = 3
     \<and> reads s1 handle_pressureCounts = 3
     \<and> filter is_read (trace s1) =
          [ReadChar handle_pressureCounts,
           ReadChar handle_pressureHistory, ReadChar handle_pressureHistory,
           ReadChar handle_pressureCounts,
           ReadChar handle_pressureHistory,
           ReadChar handle_pressureCounts]"
proof -
  have pos: "\<forall>c \<in> set [2, 1 :: nat]. 0 < c" by simp
  have counts: "count_reads download_env (reads initial handle_pressureCounts) ([2, 1] @ [0])"
    by (simp add: initial_def download_env_def unpack_I_def handle_pressureCounts_def
          handle_pressureHistory_def)
  have history: "history_reads download_env (reads initial handle_pressureHistory)
      [(Finite 101325, 250), (Finite 101300, 500), (Finite 101275, 750)]"
    by (simp add: initial_def download_env_def unpack_fI_def handle_pressureCounts_def
          handle_pressureHistory_def binary32_def Let_def)
  have len: "length [(Finite 101325, 250 :: nat), (Finite 101300, 500), (Finite 101275, 750)]
      = sum_list [2, 1 :: nat]" by simp
  from drain_reads_all [OF pos counts history len]
  show ?thesis by (simp add: initial_def numeral_2_eq_2 numeral_3_eq_3)
qed

text \<open>
  C6. A drain loop entered with the count 0 returns at once and leaves the state as it
  was: it reads nothing. The whole engine, when its count read is answered with 0,
  reads the count once and the history not at all.
\<close>

theorem drain_at_zero_reads_nothing:
  "drain e 0 dataList s = Some (Inr dataList, s)
   \<and> (count_reads e (reads s handle_pressureCounts) [0] \<longrightarrow>
        (\<exists>s1. drain_engine e s = Some (Inr [], s1)
           \<and> reads s1 handle_pressureHistory = reads s handle_pressureHistory
           \<and> filter is_read (trace s1) =
               filter is_read (trace s) @ [ReadChar handle_pressureCounts]))"
  by (simp add: drain_zero drain_engine_zero handles_distinct)

theorem drain_at_zero_reads_nothing_witness:
  "drain empty_env 0 [] initial = Some (Inr [], initial)
   \<and> (\<exists>s1. drain_engine empty_env initial = Some (Inr [], s1)
           \<and> reads s1 handle_pressureHistory = 0
           \<and> filter is_read (trace s1) = [ReadChar handle_pressureCounts])"
proof -
  have zero: "count_reads empty_env (reads initial handle_pressureCounts) [0]"
    by (simp add: initial_def empty_env_def unpack_I_def)
  from drain_at_zero_reads_nothing [of empty_env "[]" initial] zero
  show ?thesis by (simp add: initial_def)
qed

subsection \<open>Clock reconciliation\<close>

text \<open>
  C2. After a drain that returned at least one entry, the device time is read once as
  four bytes, least significant first, and divided by 1000; the offset is the local
  time minus that; the file receives, for every entry, its pressure and its time
  divided by 1000 plus the offset. Finite values are exact reals here, so the equation
  is one of real numbers.
\<close>

theorem clock_reconciliation:
  assumes "gatt_resp e handle_deviceTime (reads s handle_deviceTime) = Some raw"
    and "length raw = 4"
    and "dataList \<noteq> []"
    and "open_ok e"
  shows "post_process e a dataList s =
     (Inr (),
      s\<lparr>reads := (reads s)(handle_deviceTime := Suc (reads s handle_deviceTime)),
        ticks := Suc (ticks s),
        trace := trace s @
          [ReadChar handle_deviceTime,
           Log INFO ''Established time Difference of {} seconds.''
             [VReal (wall_clock e (ticks s) - real (le_nat raw) / 1000)],
           Log INFO ''Device was started at {}.''
             [VReal (wall_clock e (ticks s) - real (le_nat raw) / 1000)],
           SaveTxt (filename a) (if overwrite a then ''w'' else ''a'')
             (Array2 (map (\<lambda>(pressure, ms).
                             (pressure,
                              Finite (real ms / 1000 +
                                      (wall_clock e (ticks s) - real (le_nat raw) / 1000))))
                          dataList))
             ''%.2f'']\<rparr>)"
  using assms
  by (simp add: post_process_def io_bind_def io_lift_def io_emit_def read_gatt_char_def
        unpack_I_def time_time_def emit_def Let_def np_array_def update_column1_def
        float_div_def float_add_def case_prod_unfold comp_def)

theorem clock_reconciliation_witness:
  "post_process download_env demo_args [(Finite 101300, 500)] initial =
     (Inr (),
      initial\<lparr>reads := (reads initial)(handle_deviceTime := 1),
        ticks := 1,
        trace :=
          [ReadChar handle_deviceTime,
           Log INFO ''Established time Difference of {} seconds.'' [VReal (1000 - 1.0)],
           Log INFO ''Device was started at {}.'' [VReal (1000 - 1.0)],
           SaveTxt ''pressure.txt'' ''a''
             (Array2 [(Finite 101300, Finite (1000 - 1.0 + 0.5))]) ''%.2f'']\<rparr>)"
proof -
  have resp: "gatt_resp download_env handle_deviceTime (reads initial handle_deviceTime) =
      Some [0xE8, 3, 0, 0]"
    by (simp add: download_env_def handle_deviceTime_def handle_pressureCounts_def
          handle_pressureHistory_def)
  have len: "length [0xE8, 3, 0, 0 :: byte] = 4" by simp
  have ne: "[(Finite 101300, 500 :: nat)] \<noteq> []" by simp
  have ok: "open_ok download_env" by (simp add: download_env_def demo_env_def)
  have clock: "wall_clock download_env (ticks initial) = 1000"
    by (simp add: download_env_def demo_env_def)
  from clock_reconciliation [OF resp len ne ok, of demo_args] clock
  show ?thesis by (simp add: demo_args_def initial_def)
qed

lemma post_process_empty:
  assumes "gatt_resp e handle_deviceTime (reads s handle_deviceTime) = Some raw"
    and "length raw = 4"
  shows "post_process e a [] s =
     (Inl IndexError,
      s\<lparr>reads := (reads s)(handle_deviceTime := Suc (reads s handle_deviceTime)),
        ticks := Suc (ticks s),
        trace := trace s @
          [ReadChar handle_deviceTime,
           Log INFO ''Established time Difference of {} seconds.''
             [VReal (wall_clock e (ticks s) - real (le_nat raw) / 1000)],
           Log INFO ''Device was started at {}.''
             [VReal (wall_clock e (ticks s) - real (le_nat raw) / 1000)]]\<rparr>)"
  using assms
  by (simp add: post_process_def io_bind_def io_lift_def io_emit_def read_gatt_char_def
        unpack_I_def time_time_def emit_def Let_def np_array_def update_column1_def)

text \<open>
  C10. When the first count read of download mode is answered with 0, the entry list
  is empty, \<^verbatim>\<open>np.array\<close> builds an array of one dimension, the index
  \<^verbatim>\<open>data[:,1]\<close> raises \<^verbatim>\<open>IndexError\<close>, and the trace ends with the two log lines
  about the clock: no file is written, and the exit status is 1.
\<close>

theorem empty_download_fails:
  assumes "count_reads e (reads s handle_pressureCounts) [0]"
    and "gatt_resp e handle_deviceTime (reads s handle_deviceTime) = Some raw"
    and "length raw = 4"
  shows "\<exists>s1. download_mode e a s = Some (Inl IndexError, s1)
     \<and> trace s1 = trace s @
          [Log INFO ''Starting download mode...'' [],
           ReadChar handle_pressureCounts,
           Log INFO ''Found {} pressure values on device'' [VInt 0],
           Log INFO ''Read {} values in {} seconds''
             [VInt 0, VReal (wall_clock e (Suc (ticks s)) - wall_clock e (ticks s))],
           ReadChar handle_deviceTime,
           Log INFO ''Established time Difference of {} seconds.''
             [VReal (wall_clock e (Suc (Suc (ticks s))) - real (le_nat raw) / 1000)],
           Log INFO ''Device was started at {}.''
             [VReal (wall_clock e (Suc (Suc (ticks s))) - real (le_nat raw) / 1000)]]
     \<and> exit_status (Inl IndexError) = 1"
proof -
  define s0 where "s0 = emit (Log INFO ''Starting download mode...'' []) s"
  have s0: "reads s0 = reads s" "ticks s0 = ticks s"
    "trace s0 = trace s @ [Log INFO ''Starting download mode...'' []]"
    by (simp_all add: s0_def emit_def)
  from assms(1) s0(1) have c0: "count_reads e (reads s0 handle_pressureCounts) [0]"
    by simp
  define s1 where "s1 = s0\<lparr>reads := (reads s0)(handle_pressureCounts :=
                             Suc (reads s0 handle_pressureCounts)),
                  ticks := Suc (Suc (ticks s0)),
                  trace := trace s0 @
                    [ReadChar handle_pressureCounts,
                     Log INFO ''Found {} pressure values on device'' [VInt 0],
                     Log INFO ''Read {} values in {} seconds''
                       [VInt 0,
                        VReal (wall_clock e (Suc (ticks s0)) - wall_clock e (ticks s0))]]\<rparr>"
  have engine: "drain_engine e s0 = Some (Inr [], s1)"
    using drain_engine_zero [OF c0] by (simp add: s1_def)
  have ne: "handle_deviceTime \<noteq> handle_pressureCounts"
    by (simp add: handle_deviceTime_def handle_pressureCounts_def)
  from assms(2) s0(1) ne
  have r1: "gatt_resp e handle_deviceTime (reads s1 handle_deviceTime) = Some raw"
    by (simp add: s1_def)
  have "download_mode e a s = Some (post_process e a [] s1)"
    using engine by (simp add: download_mode_def s0_def [symmetric] Let_def)
  then show ?thesis
    using post_process_empty [OF r1 assms(3), of a] s0
    by (simp add: s1_def exit_status_def)
qed

theorem empty_download_fails_witness:
  "\<exists>s1. download_mode empty_env (demo_args\<lparr>mode := ''download''\<rparr>) initial =
          Some (Inl IndexError, s1)
     \<and> trace s1 =
          [Log INFO ''Starting download mode...'' [],
           ReadChar handle_pressureCounts,
           Log INFO ''Found {} pressure values on device'' [VInt 0],
           Log INFO ''Read {} values in {} seconds'' [VInt 0, VReal 0],
           ReadChar handle_deviceTime,
           Log INFO ''Established time Difference of {} seconds.'' [VReal 999],
           Log INFO ''Device was started at {}.'' [VReal 999]]"
proof -
  have zero: "count_reads empty_env (reads initial handle_pressureCounts) [0]"
    by (simp add: initial_def empty_env_def unpack_I_def)
  have resp: "gatt_resp empty_env handle_deviceTime (reads initial handle_deviceTime) =
      Some [0xE8, 3, 0, 0]"
    by (simp add: empty_env_def handle_deviceTime_def handle_pressureCounts_def)
  have len: "length [0xE8, 3, 0, 0 :: byte] = 4" by simp
  have clock: "wall_clock empty_env k = 1000" for k
    by (simp add: empty_env_def demo_env_def)
  from empty_download_fails [OF zero resp len, of "demo_args\<lparr>mode := ''download''\<rparr>"]
  show ?thesis by (auto simp: initial_def clock)
qed

subsection \<open>Interval configurator\<close>

lemma timedelta_in_range:
  assumes "curr_counts \<le> 16384" and "0 \<le> requested" and "requested < 2 ^ 32"
  shows "timedelta (remaining_seconds curr_counts requested) =
           Inr (remaining_seconds curr_counts requested)"
proof -
  define x where "x = real_of_int (16384 - int curr_counts)"
  define y where "y = (if requested \<noteq> 0 then real_of_int requested else 0.1)"
  from assms(1) have x: "0 \<le> x" "x \<le> 16384" by (simp_all add: x_def)
  from assms(2,3) have y: "0 \<le> y" "y \<le> 4294967296" by (auto simp: y_def)
  from x y have lo: "0 \<le> x * y" by simp
  from x y have "x * y \<le> 16384 * 4294967296" by (intro mult_mono) simp_all
  then have hi: "x * y < 86400000000000" by simp
  have "remaining_seconds curr_counts requested = x * y"
    by (simp add: remaining_seconds_def x_def y_def Let_def)
  with lo hi show ?thesis by (simp add: timedelta_def)
qed

text \<open>
  C4. When an interval is requested, the current interval and the requested one are
  logged, the requested one is written with acknowledgement, the count is read, and
  the warning carries \<open>(16384 - count) * interval\<close> seconds, with 0.1 in place of an
  interval of 0. The count is taken to be within the buffer's capacity of 16384.
\<close>

theorem remaining_buffer_duration:
  assumes "gatt_resp e handle_interval (reads s handle_interval) = Some data"
    and "length data = 4"
    and "0 \<le> requested" and "requested < 2 ^ 32"
    and "write_ok e"
    and "gatt_resp e handle_pressureCounts (reads s handle_pressureCounts) = Some raw"
    and "length raw = 4"
    and "le_nat raw \<le> 16384"
  shows "\<exists>s1. set_interval e requested s = (Inr (), s1)
     \<and> trace s1 = trace s @
         [ReadChar handle_interval,
          Log INFO ''Current readout interval is {} second(s)'' [VInt (int (le_nat data))],
          Log INFO ''Setting readout interval to {} second(s)'' [VInt requested],
          WriteChar handle_interval (le_bytes4 (nat requested)) True,
          ReadChar handle_pressureCounts,
          Log WARNING ''Remaining recording buffer will last for {}''
            [VReal (real_of_int (16384 - int (le_nat raw)) *
                    (if requested = 0 then 0.1 else real_of_int requested))]]"
proof -
  have td: "timedelta (remaining_seconds (le_nat raw) requested) =
      Inr (real_of_int (16384 - int (le_nat raw)) *
             (if requested = 0 then 0.1 else real_of_int requested))"
    using timedelta_in_range [OF assms(8) assms(3) assms(4)]
    by (simp add: remaining_seconds_def Let_def)
  have ne: "handle_pressureCounts \<noteq> handle_interval"
    by (simp add: handle_pressureCounts_def handle_interval_def)
  show ?thesis
    using assms(1,2,3,4,5,6,7) ne td
    by (simp add: set_interval_def io_bind_def io_lift_def io_emit_def read_gatt_char_def
          write_gatt_char_def unpack_I_def pack_I_def emit_def Let_def)
qed

theorem remaining_buffer_duration_witness:
  "\<exists>s1. set_interval config_env 0 initial = (Inr (), s1)
     \<and> trace s1 =
         [ReadChar handle_interval,
          Log INFO ''Current readout interval is {} second(s)'' [VInt 1],
          Log INFO ''Setting readout interval to {} second(s)'' [VInt 0],
          WriteChar handle_interval [0, 0, 0, 0] True,
          ReadChar handle_pressureCounts,
          Log WARNING ''Remaining recording buffer will last for {}''
            [VReal ((16384 - 100) * 0.1)]]"
proof -
  have r1: "gatt_resp config_env handle_interval (reads initial handle_interval) =
      Some [1, 0, 0, 0]"
    by (simp add: config_env_def)
  have r2: "gatt_resp config_env handle_pressureCounts (reads initial handle_pressureCounts) =
      Some [100, 0, 0, 0]"
    by (simp add: config_env_def handle_pressureCounts_def handle_interval_def)
  have l1: "length [1, 0, 0, 0 :: byte] = 4" and l2: "length [100, 0, 0, 0 :: byte] = 4"
    by simp_all
  have w: "write_ok config_env" by (simp add: config_env_def demo_env_def)
  have c: "le_nat [100, 0, 0, 0] \<le> 16384" by simp
  have i: "(0::int) \<le> 0" "(0::int) < 2 ^ 32" by simp_all
  from remaining_buffer_duration [OF r1 l1 i w r2 l2 c]
  show ?thesis by (auto simp: initial_def le_bytes4_def)
qed

subsection \<open>Notification handler\<close>

text \<open>On a little-endian machine the handler prints the little-endian value.\<close>

lemma callback_little_endian:
  assumes "sys_byteorder e = Little" and "length data = 4" and "eol s = Some terminator"
  shows "scanPressureCallback e data s =
     (Inr (),
      s\<lparr>ticks := Suc (ticks s),
        trace := trace s @
          [Print ''{} : {:10.2f} Pa''
             [VReal (wall_clock e (ticks s)), VFloat (binary32 (le_nat data))]
             terminator]\<rparr>)"
  using assms
  by (simp add: scanPressureCallback_def unpack_f_def time_time_def emit_def)

text \<open>
  C3. The handler decodes with the format \<^verbatim>\<open>'f'\<close>, which has no byte-order prefix:
  on a big-endian machine the four bytes \<open>00 00 80 3F\<close>, which are 1.0 in little-endian
  order and which the history decoder \<^verbatim>\<open>'<fI'\<close> reads as 1.0, are printed as
  \<open>32831 / 2 ^ 149\<close>.
\<close>

theorem callback_native_byte_order:
  "scanPressureCallback (demo_env\<lparr>sys_byteorder := Big\<rparr>) [0, 0, 0x80, 0x3F]
       (initial\<lparr>eol := Some [CHR 0x0D]\<rparr>) =
     (Inr (),
      initial\<lparr>eol := Some [CHR 0x0D], ticks := 1,
        trace := [Print ''{} : {:10.2f} Pa''
                    [VReal 1000, VFloat (Finite (32831 / 2 ^ 149))] [CHR 0x0D]]\<rparr>)
   \<and> binary32 (le_nat [0, 0, 0x80, 0x3F]) = Finite 1
   \<and> unpack_fI [0, 0, 0x80, 0x3F, 0, 0, 0, 0] = Inr (Finite 1, 0)"
  by (simp add: scanPressureCallback_def unpack_f_def unpack_fI_def time_time_def emit_def
        demo_env_def initial_def be_nat_def binary32_def Let_def)

subsection \<open>Scan mode\<close>

lemma quiet_discover:
  "filter shutdown_step (trace (snd (discoverDevice e tmo m s))) = filter shutdown_step (trace s)"
  by (simp add: discoverDevice_def Let_def trace_report_found emit_def case_prod_unfold
        filter_map comp_def split: option.splits)

lemma quiet_getDevice:
  "filter shutdown_step (trace (snd (getDevice e a tmo s))) = filter shutdown_step (trace s)"
  by (simp add: getDevice_def Let_def emit_def split: option.splits)

lemma quiet_list_services:
  "filter shutdown_step (trace (list_services e s)) = filter shutdown_step (trace s)"
proof -
  have inner: "filter shutdown_step (trace (fold (\<lambda>(char, properties).
                     emit (Log DEBUG ''Characteristics {} | {}'' [VStr char, VStrs properties]))
                  chars s1)) = filter shutdown_step (trace s1)" for chars s1
    by (induction chars arbitrary: s1) (auto simp: emit_def)
  have "filter shutdown_step (trace (fold (\<lambda>(service, chars) s1.
             fold (\<lambda>(char, properties).
                     emit (Log DEBUG ''Characteristics {} | {}'' [VStr char, VStrs properties]))
                  chars (emit (Log DEBUG ''Service {}'' [VStr service]) s1)) svs s))
        = filter shutdown_step (trace s)" for svs
    by (induction svs arbitrary: s) (auto simp: inner emit_def)
  then show ?thesis by (simp add: list_services_def)
qed

lemma quiet_bind:
  assumes "\<And>s. filter shutdown_step (trace (snd (m s))) = filter shutdown_step (trace s)"
    and "\<And>x s. filter shutdown_step (trace (snd (f x s))) = filter shutdown_step (trace s)"
  shows "filter shutdown_step (trace (snd (io_bind m f s))) = filter shutdown_step (trace s)"
proof (cases "m s")
  case (Pair r s1)
  with assms(1) [of s] have s1: "filter shutdown_step (trace s1) = filter shutdown_step (trace s)"
    by simp
  show ?thesis
  proof (cases r)
    case (Inl err)
    with Pair s1 show ?thesis by (simp add: io_bind_def)
  next
    case (Inr x)
    with Pair s1 assms(2) [of x s1] show ?thesis by (simp add: io_bind_def)
  qed
qed

lemma quiet_lift:
  "filter shutdown_step (trace (snd (io_lift r s))) = filter shutdown_step (trace s)"
  by (simp add: io_lift_def)

lemma quiet_emit:
  "\<not> shutdown_step ev \<Longrightarrow>
   filter shutdown_step (trace (snd (io_emit ev s))) = filter shutdown_step (trace s)"
  by (simp add: io_emit_def emit_def)

lemma quiet_read:
  "filter shutdown_step (trace (snd (read_gatt_char e handle s))) =
     filter shutdown_step (trace s)"
  by (simp add: read_gatt_char_def emit_def Let_def split: option.splits)

lemma quiet_write:
  "filter shutdown_step (trace (snd (write_gatt_char e handle data response s))) =
     filter shutdown_step (trace s)"
  by (simp add: write_gatt_char_def emit_def Let_def)

lemma quiet_set_interval:
  "filter shutdown_step (trace (snd (set_interval e requested s))) = filter shutdown_step (trace s)"
  unfolding set_interval_def
  by (intro quiet_bind quiet_lift quiet_emit quiet_read quiet_write) simp_all

lemma quiet_callback:
  "filter shutdown_step (trace (snd (scanPressureCallback e data s))) =
     filter shutdown_step (trace s)"
  by (simp add: scanPressureCallback_def time_time_def emit_def
      split: option.splits sum.splits)

lemma quiet_deliver:
  "filter shutdown_step (trace (deliver e datas s)) = filter shutdown_step (trace s)"
  unfolding deliver_def
  by (induction datas arbitrary: s) (simp_all add: quiet_callback)

lemma scan_mode_end:
  assumes "scan_mode e a s = Some (r, s1)"
  shows "(r \<noteq> Inr () \<and> filter shutdown_step (trace s1) = filter shutdown_step (trace s))
       \<or> (\<exists>sg. arriving_signal e = Some sg
             \<and> filter shutdown_step (trace s1) =
                 filter shutdown_step (trace s) @
                 [Wait, Received sg, StopNotify handle_pressureValue])"
proof (cases "notify_ok e")
  case False
  with assms show ?thesis
    by (auto simp: scan_mode_def start_notify_def emit_def Let_def)
next
  case True
  with assms obtain sg where sg: "arriving_signal e = Some sg"
    by (auto simp: scan_mode_def start_notify_def emit_def Let_def split: option.splits)
  with True assms have "filter shutdown_step (trace s1) =
                 filter shutdown_step (trace s) @
                 [Wait, Received sg, StopNotify handle_pressureValue]"
    by (auto simp: scan_mode_def start_notify_def stop_notify_def emit_def Let_def
          quiet_deliver)
  with sg show ?thesis by blast
qed

lemma session_scan_end:
  assumes "mode a = ''scan''" and "session e a device s = Some (r, s1)"
  shows "(r \<noteq> Inr () \<and> filter shutdown_step (trace s1) = filter shutdown_step (trace s))
       \<or> (\<exists>sg. arriving_signal e = Some sg
             \<and> filter shutdown_step (trace s1) =
                 filter shutdown_step (trace s) @
                 [Wait, Received sg, StopNotify handle_pressureValue])"
proof -
  let ?s2 = "list_services e (emit (Log INFO ''Connected to device {}'' [VDev device]) s)"
  have s2: "filter shutdown_step (trace ?s2) = filter shutdown_step (trace s)"
    by (simp add: quiet_list_services emit_def)
  show ?thesis
  proof (cases "interval a")
    case None
    with assms have "scan_mode e a ?s2 = Some (r, s1)"
      by (simp add: session_def Let_def)
    from scan_mode_end [OF this] s2 show ?thesis by simp
  next
    case (Some requested)
    obtain rc s3 where c: "set_interval e requested ?s2 = (rc, s3)"
      by (cases "set_interval e requested ?s2")
    from quiet_set_interval [of e requested ?s2] c s2
    have s3: "filter shutdown_step (trace s3) = filter shutdown_step (trace s)" by simp
    show ?thesis
    proof (cases rc)
      case (Inl err)
      with Some c assms have "r = Inl err" "s1 = s3"
        by (simp_all add: session_def Let_def)
      with s3 show ?thesis by simp
    next
      case (Inr u)
      with Some c assms have "scan_mode e a s3 = Some (r, s1)"
        by (simp add: session_def Let_def)
      from scan_mode_end [OF this] s3 show ?thesis by simp
    qed
  qed
qed

text \<open>
  C9. Once the subscription has succeeded, scan mode with no signal never returns,
  whatever notifications arrive. Every run of the program in scan mode that has ended
  either received a signal, and then its shutdown events are, in this order, the wait,
  the signal, the end of the subscription and the disconnection; or it failed with an
  error before it ever waited. A signal is taken to arrive while the program waits.
\<close>

theorem scan_shutdown_sequence:
  "(notify_ok e \<and> arriving_signal e = None \<longrightarrow> scan_mode e a s = None)
   \<and> (mode a = ''scan'' \<and> loop e a s = Some (r, s1) \<longrightarrow>
        (\<exists>sg. arriving_signal e = Some sg
           \<and> filter shutdown_step (trace s1) =
               filter shutdown_step (trace s) @
               [Wait, Received sg, StopNotify handle_pressureValue, Disconnect])
        \<or> (r \<noteq> Inr ()
            \<and> (filter shutdown_step (trace s1) = filter shutdown_step (trace s)
                 \<or> filter shutdown_step (trace s1) =
                     filter shutdown_step (trace s) @ [Disconnect])))"
proof (intro conjI impI)
  assume "notify_ok e \<and> arriving_signal e = None"
  then show "scan_mode e a s = None"
    by (simp add: scan_mode_def start_notify_def Let_def)
next
  assume "mode a = ''scan'' \<and> loop e a s = Some (r, s1)"
  then have scan: "mode a = ''scan''" and run: "loop e a s = Some (r, s1)" by simp_all
  define found where "found = (case addr a of
              None \<Rightarrow> discoverDevice e (timeout a) (arg_rssi a) s
            | Some ad \<Rightarrow>
                if ad \<noteq> [] then getDevice e ad (timeout a) s
                else discoverDevice e (timeout a) (arg_rssi a) s)"
  have found: "filter shutdown_step (trace (snd found)) = filter shutdown_step (trace s)"
    by (simp add: found_def quiet_discover quiet_getDevice split: option.splits)
  let ?goal = "(\<exists>sg. arriving_signal e = Some sg
           \<and> filter shutdown_step (trace s1) =
               filter shutdown_step (trace s) @
               [Wait, Received sg, StopNotify handle_pressureValue, Disconnect])
        \<or> (r \<noteq> Inr ()
            \<and> (filter shutdown_step (trace s1) = filter shutdown_step (trace s)
                 \<or> filter shutdown_step (trace s1) =
                     filter shutdown_step (trace s) @ [Disconnect]))"
  show ?goal
  proof (cases found)
    case (Pair res s0)
    with found have s0: "filter shutdown_step (trace s0) = filter shutdown_step (trace s)"
      by simp
    show ?thesis
    proof (cases res)
      case (Inl err)
      with Pair run s0 show ?thesis
        by (auto simp: loop_def found_def [symmetric])
    next
      case (Inr device)
      define s3 where "s3 = emit (Connect device (timeout a))
                              (emit (Log INFO ''Using device {}'' [VDev device]) s0)"
      have s3: "filter shutdown_step (trace s3) = filter shutdown_step (trace s)"
        by (simp add: s3_def emit_def s0)
      show ?thesis
      proof (cases "connect_ok e")
        case False
        with Pair Inr run s3 show ?thesis
          by (auto simp: loop_def found_def [symmetric] Let_def s3_def [symmetric])
      next
        case True
        from True Pair Inr run have unfolded:
          "(case session e a device s3 of
              None \<Rightarrow> None
            | Some (Inl err, s4) \<Rightarrow> Some (Inl err, emit Disconnect s4)
            | Some (Inr _, s4) \<Rightarrow>
                Some (Inr (), emit (Log INFO ''Disconnected from device {}'' [VDev device])
                                (emit Disconnect s4))) = Some (r, s1)"
          by (simp add: loop_def found_def [symmetric] Let_def s3_def [symmetric])
        then obtain r4 s4 where sess: "session e a device s3 = Some (r4, s4)"
          by (cases "session e a device s3") auto
        have out: "(r = Inr ()) = (r4 = Inr ())"
          and tr: "filter shutdown_step (trace s1) =
                     filter shutdown_step (trace s4) @ [Disconnect]"
          using unfolded sess by (cases r4; auto simp: emit_def)+
        from session_scan_end [OF scan sess] out tr s3 show ?thesis by auto
      qed
    qed
  qed
qed

text \<open>A whole run in scan mode with two notifications and an interrupt.\<close>

lemma demo_scan_run:
  "loop demo_env (demo_args\<lparr>addr := Some ''C0:FF:EE:00:00:01''\<rparr>) initial =
     Some (Inr (),
       \<lparr>trace =
          [FindByAddress ''C0:FF:EE:00:00:01'' 5,
           Log INFO ''Using device {}'' [VDev demo_nano],
           Connect demo_nano 5,
           Log INFO ''Connected to device {}'' [VDev demo_nano],
           Log INFO ''Starting scanning mode...'' [],
           StartNotify handle_pressureValue,
           AddSignalHandler SIGINT,
           AddSignalHandler SIGTERM,
           Wait,
           Print ''{} : {:10.2f} Pa'' [VReal 1000, VFloat (Finite 101325)] [CHR 0x0D],
           Print ''{} : {:10.2f} Pa'' [VReal 1000, VFloat (Finite 101300)] [CHR 0x0D],
           Received SIGINT,
           StopNotify handle_pressureValue,
           Disconnect,
           Log INFO ''Disconnected from device {}'' [VDev demo_nano]],
        reads = (\<lambda>h. 0), ticks = 2, eol = Some [CHR 0x0D]\<rparr>)"
  by (simp add: loop_def getDevice_def session_def scan_mode_def list_services_def
        start_notify_def stop_notify_def deliver_def scanPressureCallback_def unpack_f_def
        binary32_def time_time_def emit_def Let_def demo_env_def demo_args_def initial_def)

theorem scan_shutdown_sequence_witness:
  "scan_mode (demo_env\<lparr>arriving_signal := None\<rparr>) demo_args initial = None
   \<and> (\<exists>s1. loop demo_env (demo_args\<lparr>addr := Some ''C0:FF:EE:00:00:01''\<rparr>) initial =
               Some (Inr (), s1)
          \<and> filter shutdown_step (trace s1) =
               [Wait, Received SIGINT, StopNotify handle_pressureValue, Disconnect])"
proof -
  have quiet: "notify_ok (demo_env\<lparr>arriving_signal := None\<rparr>)
      \<and> arriving_signal (demo_env\<lparr>arriving_signal := None\<rparr>) = None"
    by (simp add: demo_env_def)
  obtain s1 where run: "loop demo_env (demo_args\<lparr>addr := Some ''C0:FF:EE:00:00:01''\<rparr>) initial =
      Some (Inr (), s1)"
    using demo_scan_run by blast
  have scan: "mode (demo_args\<lparr>addr := Some ''C0:FF:EE:00:00:01''\<rparr>) = ''scan''"
    by (simp add: demo_args_def)
  have sg: "arriving_signal demo_env = Some SIGINT" by (simp add: demo_env_def)
  have start: "filter shutdown_step (trace initial) = []" by (simp add: initial_def)
  from scan_shutdown_sequence
    [of "demo_env\<lparr>arriving_signal := None\<rparr>" demo_args initial]
    quiet
  have none: "scan_mode (demo_env\<lparr>arriving_signal := None\<rparr>) demo_args initial = None"
    by blast
  from scan_shutdown_sequence
    [of demo_env "demo_args\<lparr>addr := Some ''C0:FF:EE:00:00:01''\<rparr>" initial "Inr ()" s1]
    scan run sg start
  have "filter shutdown_step (trace s1) =
      [Wait, Received SIGINT, StopNotify handle_pressureValue, Disconnect]"
    by simp
  with none run show ?thesis by blast
qed

subsection \<open>A whole run on a device with an empty history\<close>

text \<open>
  The program in download mode, from the lookup of the device to the end: the session
  is closed, the last log line is not reached and no file is written.
\<close>

lemma demo_empty_download_run:
  "loop empty_env (demo_args\<lparr>mode := ''download'', addr := Some ''C0:FF:EE:00:00:01''\<rparr>)
       initial =
     Some (Inl IndexError,
       \<lparr>trace =
          [FindByAddress ''C0:FF:EE:00:00:01'' 5,
           Log INFO ''Using device {}'' [VDev demo_nano],
           Connect demo_nano 5,
           Log INFO ''Connected to device {}'' [VDev demo_nano],
           Log INFO ''Starting download mode...'' [],
           ReadChar handle_pressureCounts,
           Log INFO ''Found {} pressure values on device'' [VInt 0],
           Log INFO ''Read {} values in {} seconds'' [VInt 0, VReal 0],
           ReadChar handle_deviceTime,
           Log INFO ''Established time Difference of {} seconds.'' [VReal 999],
           Log INFO ''Device was started at {}.'' [VReal 999],
           Disconnect],
        reads = (\<lambda>h. 0)(26 := 1, 23 := 1),
        ticks = 3, eol = None\<rparr>)"
proof -
  have zero: "count_reads empty_env (reads s handle_pressureCounts) [0]" for s :: state
    by (simp add: empty_env_def unpack_I_def)
  have resp: "gatt_resp empty_env handle_deviceTime k = Some [0xE8, 3, 0, 0]" for k
    by (simp add: empty_env_def handle_deviceTime_def handle_pressureCounts_def)
  have env: "found_by_address empty_env ''C0:FF:EE:00:00:01'' = Some demo_nano"
    "connect_ok empty_env" "services empty_env = []" "wall_clock empty_env k = 1000" for k
    by (simp_all add: empty_env_def demo_env_def)
  show ?thesis
    by (simp add: loop_def getDevice_def session_def list_services_def download_mode_def
          drain_engine_zero [OF zero] post_process_empty [OF resp] env
          emit_def Let_def demo_args_def initial_def handle_deviceTime_def
          handle_pressureCounts_def)
qed

end
